theory Spec2Isabelle
  imports Main "HOL-Library.Word"
begin

section \<open>Strings, runes and the standard library\<close>

text \<open>
  A Go string is read by \<^verbatim>\<open>toCamel\<close> through \<^verbatim>\<open>[]rune(s)\<close> and written back rune by
  rune, so strings are modelled as their sequence of runes (Unicode code points).
  \<^verbatim>\<open>len(s) == 0\<close> holds exactly when that sequence is empty. The function \<open>str\<close> writes
  an ASCII literal of the source as such a sequence.
\<close>

type_synonym rune = nat
type_synonym gostring = "rune list"

definition str :: "string \<Rightarrow> gostring" where
  "str cs = map of_char cs"

text \<open>
  The package calls into the Go standard library: \<^verbatim>\<open>unicode.IsUpper\<close>,
  \<^verbatim>\<open>unicode.ToLower\<close>, \<^verbatim>\<open>strings.ToUpper\<close>, the \<^verbatim>\<open>strconv\<close> and \<^verbatim>\<open>time\<close>
  parsers. Their tables and grammars are not part of this package; they are taken as a
  record of functions, together with the platform constant \<^verbatim>\<open>sizeOfInt\<close> (the size of
  \<^verbatim>\<open>int\<close> in bytes: 4 or 8).
\<close>

datatype err =
    NotPointerToStruct gostring
  | InvalidBool gostring
  | UnsupportedStructType gostring
  | UnsupportedConversion gostring gostring
  | IntegerTooBig "64 word"
  | IntegerTooSmall "64 word"
  | UnsignedTooBig "64 word"
  | FailedToAssignKey err gostring
  | ErrNotExist gostring
  | LibraryError gostring

text \<open>
  The constructors follow the error values of the source: the first seven are the
  \<^verbatim>\<open>errors.Errorf\<close> messages with their arguments, \<open>FailedToAssignKey\<close> is
  \<^verbatim>\<open>errors.Wrapf(err, "failed to assign key %s", key)\<close>, \<open>ErrNotExist\<close> is an error for
  which \<^verbatim>\<open>os.IsNotExist\<close> reports true, and \<open>LibraryError\<close> is any other error coming
  from a parser or from the file decoder.
\<close>

fun os_IsNotExist :: "err \<Rightarrow> bool" where
  "os_IsNotExist (ErrNotExist _) = True"
| "os_IsNotExist _ = False"

type_synonym float64 = "64 word"

datatype time_Time = Time int

record stdlib =
  sizeOfInt :: nat
  unicode_IsUpper :: "rune \<Rightarrow> bool"
  unicode_ToLower :: "rune \<Rightarrow> rune"
  strings_ToUpper :: "gostring \<Rightarrow> gostring"
  strconv_ParseInt :: "gostring \<Rightarrow> nat \<Rightarrow> err + 64 word"
  strconv_ParseUint :: "gostring \<Rightarrow> nat \<Rightarrow> err + 64 word"
  strconv_ParseFloat :: "gostring \<Rightarrow> err + float64"
  time_ParseDuration :: "gostring \<Rightarrow> err + 64 word"
  time_Parse_RFC3339 :: "gostring \<Rightarrow> err + time_Time"

section \<open>Key derivation: toCamel\<close>

text \<open>
  The loop of \<^verbatim>\<open>toCamel\<close>, with its index \<open>i\<close>, the flag \<^verbatim>\<open>last\<close> (here \<open>lastU\<close>)
  and the buffer \<open>b\<close>. Rune 95 is the underscore.
\<close>

function toCamel_loop :: "stdlib \<Rightarrow> rune list \<Rightarrow> nat \<Rightarrow> bool \<Rightarrow> gostring \<Rightarrow> gostring" where
  "toCamel_loop L r i lastU b =
     (if i < length r then
        let upper = unicode_IsUpper L (r ! i);
            b1 = (if i \<noteq> 0 \<and> upper then
                    (if \<not> lastU then b @ [95]
                     else if i + 1 < length r \<and> \<not> unicode_IsUpper L (r ! (i + 1)) then b @ [95]
                     else b)
                  else b);
            b2 = b1 @ [unicode_ToLower L (r ! i)]
        in toCamel_loop L r (i + 1) upper b2
      else b)"
  by pat_completeness auto
termination
  by (relation "measure (\<lambda>(L, r, i, lastU, b). length r - i)") auto

definition toCamel :: "stdlib \<Rightarrow> gostring \<Rightarrow> gostring" where
  "toCamel L s = toCamel_loop L s 0 False []"

text \<open>
  The rule as the specification words it: an underscore goes before the character at
  position \<open>i\<close> exactly when that character is uppercase, is not the first one, and either
  the preceding character is not uppercase or a following character exists and is not
  uppercase. Every character is written lowercased.
\<close>

definition underscore_before :: "stdlib \<Rightarrow> rune list \<Rightarrow> nat \<Rightarrow> bool" where
  "underscore_before L r i =
     (unicode_IsUpper L (r ! i) \<and> i \<noteq> 0 \<and>
      (\<not> unicode_IsUpper L (r ! (i - 1)) \<or>
       (i + 1 < length r \<and> \<not> unicode_IsUpper L (r ! (i + 1)))))"

definition toCamel_spec :: "stdlib \<Rightarrow> gostring \<Rightarrow> gostring" where
  "toCamel_spec L r =
     concat (map (\<lambda>i. (if underscore_before L r i then [95] else []) @ [unicode_ToLower L (r ! i)])
                 [0..<length r])"

text \<open>
  What the examples need of the Unicode tables: on ASCII, the uppercase letters are
  \<open>A\<close> to \<open>Z\<close> (65 to 90) and lowercasing adds 32 to exactly those.
\<close>

definition ascii_case :: "stdlib \<Rightarrow> bool" where
  "ascii_case L =
     (\<forall>r < 128. unicode_IsUpper L r = (65 \<le> r \<and> r \<le> 90) \<and>
                unicode_ToLower L r = (if 65 \<le> r \<and> r \<le> 90 then r + 32 else r))"

section \<open>Reflection: types, values and the decoded file\<close>

datatype kind =
    reflect_Invalid | reflect_Bool
  | reflect_Int | reflect_Int8 | reflect_Int16 | reflect_Int32 | reflect_Int64
  | reflect_Uint | reflect_Uint8 | reflect_Uint16 | reflect_Uint32 | reflect_Uint64
  | reflect_Uintptr | reflect_Float32 | reflect_Float64
  | reflect_Complex64 | reflect_Complex128
  | reflect_Array | reflect_Chan | reflect_Func | reflect_Interface | reflect_Map
  | reflect_Ptr | reflect_Slice | reflect_String | reflect_Struct | reflect_UnsafePointer

text \<open>
  A \<^verbatim>\<open>reflect.Type\<close>, as far as the package observes it: its \<^verbatim>\<open>Kind()\<close>, its
  \<^verbatim>\<open>String()\<close>, the element type of a pointer and the fields of a struct. \<open>Basic k s\<close> is
  a type of kind \<open>k\<close> printed as \<open>s\<close> whose inside is not described. Two types are the
  same type exactly when their descriptions are equal. The tag of a field is given as its
  list of key/value pairs.
\<close>

datatype rtype =
    Basic kind gostring
  | PtrTo rtype
  | StructOf gostring "StructField list"
and StructField =
    StructField (Name: gostring) (PkgPath: gostring) (Type: rtype)
                (Tag: "(gostring \<times> gostring) list")

fun Type_Kind :: "rtype \<Rightarrow> kind" where
  "Type_Kind (Basic k s) = k"
| "Type_Kind (PtrTo t) = reflect_Ptr"
| "Type_Kind (StructOf n fs) = reflect_Struct"

fun Type_String :: "rtype \<Rightarrow> gostring" where
  "Type_String (Basic k s) = s"
| "Type_String (PtrTo t) = 42 # Type_String t"
| "Type_String (StructOf n fs) = n"

fun Type_Elem :: "rtype \<Rightarrow> rtype option" where
  "Type_Elem (PtrTo t) = Some t"
| "Type_Elem _ = None"

fun Type_Fields :: "rtype \<Rightarrow> StructField list" where
  "Type_Fields (StructOf n fs) = fs"
| "Type_Fields _ = []"

definition Type_NumField :: "rtype \<Rightarrow> nat" where
  "Type_NumField t = length (Type_Fields t)"

definition Type_Field :: "rtype \<Rightarrow> nat \<Rightarrow> StructField" where
  "Type_Field t i = Type_Fields t ! i"

definition Tag_Get :: "(gostring \<times> gostring) list \<Rightarrow> gostring \<Rightarrow> gostring" where
  "Tag_Get tag k = (case map_of tag k of Some v \<Rightarrow> v | None \<Rightarrow> [])"

definition typeTime :: rtype where
  "typeTime = StructOf (str ''time.Time'')
     [StructField (str ''wall'') (str ''time'') (Basic reflect_Uint64 (str ''uint64'')) [],
      StructField (str ''ext'') (str ''time'') (Basic reflect_Int64 (str ''int64'')) [],
      StructField (str ''loc'') (str ''time'') (Basic reflect_Ptr (str ''*time.Location'')) []]"

definition typeDuration :: rtype where
  "typeDuration = Basic reflect_Int64 (str ''time.Duration'')"

definition typeStringArr :: rtype where
  "typeStringArr = Basic reflect_Slice (str ''[]string'')"

text \<open>
  The value held by a variable or field. Signed integers of every width are kept
  sign-extended in 64 bits, unsigned ones zero-extended; a \<^verbatim>\<open>time.Duration\<close> is its
  \<^verbatim>\<open>int64\<close> count of nanoseconds.
\<close>

datatype goval =
    VString gostring
  | VBool bool
  | VInt "64 word"
  | VUint "64 word"
  | VFloat float64
  | VTime time_Time
  | VStrings "gostring list"
  | VOpaque

text \<open>
  A \<^verbatim>\<open>reflect.Value\<close>: its type, whether it can be set (it is addressable and was not
  reached through an unexported field) and what it holds.
\<close>

record Value =
  VType :: rtype
  CanSet :: bool
  Cur :: goval

text \<open>
  A failure is an error returned to the caller or a run-time panic.
\<close>

datatype failure = Error err | Panic string

text \<open>
  The setters of \<^verbatim>\<open>reflect.Value\<close> panic on a value that cannot be set and on a value
  of the wrong kind; \<^verbatim>\<open>Set\<close> panics when the types differ (none of the types here is an
  interface type). Each returns the new contents of the slot. Setting a native-width
  integer stores the low \<^verbatim>\<open>sizeOfInt\<close> bytes.
\<close>

definition reflect_SetString :: "Value \<Rightarrow> gostring \<Rightarrow> failure + goval" where
  "reflect_SetString v x =
     (if \<not> CanSet v then Inl (Panic ''reflect: value cannot be set'')
      else if Type_Kind (VType v) \<noteq> reflect_String
        then Inl (Panic ''reflect: call of reflect.Value.SetString on wrong kind'')
      else Inr (VString x))"

definition reflect_SetBool :: "Value \<Rightarrow> bool \<Rightarrow> failure + goval" where
  "reflect_SetBool v x =
     (if \<not> CanSet v then Inl (Panic ''reflect: value cannot be set'')
      else if Type_Kind (VType v) \<noteq> reflect_Bool
        then Inl (Panic ''reflect: call of reflect.Value.SetBool on wrong kind'')
      else Inr (VBool x))"

definition reflect_SetInt :: "stdlib \<Rightarrow> Value \<Rightarrow> 64 word \<Rightarrow> failure + goval" where
  "reflect_SetInt L v x =
     (if \<not> CanSet v then Inl (Panic ''reflect: value cannot be set'')
      else case Type_Kind (VType v) of
        reflect_Int \<Rightarrow> Inr (VInt (if sizeOfInt L = 8 then x else scast (ucast x :: 32 word)))
      | reflect_Int8 \<Rightarrow> Inr (VInt (scast (ucast x :: 8 word)))
      | reflect_Int16 \<Rightarrow> Inr (VInt (scast (ucast x :: 16 word)))
      | reflect_Int32 \<Rightarrow> Inr (VInt (scast (ucast x :: 32 word)))
      | reflect_Int64 \<Rightarrow> Inr (VInt x)
      | _ \<Rightarrow> Inl (Panic ''reflect: call of reflect.Value.SetInt on wrong kind''))"

definition reflect_SetUint :: "stdlib \<Rightarrow> Value \<Rightarrow> 64 word \<Rightarrow> failure + goval" where
  "reflect_SetUint L v x =
     (if \<not> CanSet v then Inl (Panic ''reflect: value cannot be set'')
      else case Type_Kind (VType v) of
        reflect_Uint \<Rightarrow> Inr (VUint (if sizeOfInt L = 8 then x else ucast (ucast x :: 32 word)))
      | reflect_Uint8 \<Rightarrow> Inr (VUint (ucast (ucast x :: 8 word)))
      | reflect_Uint16 \<Rightarrow> Inr (VUint (ucast (ucast x :: 16 word)))
      | reflect_Uint32 \<Rightarrow> Inr (VUint (ucast (ucast x :: 32 word)))
      | reflect_Uint64 \<Rightarrow> Inr (VUint x)
      | reflect_Uintptr \<Rightarrow> Inr (VUint (if sizeOfInt L = 8 then x else ucast (ucast x :: 32 word)))
      | _ \<Rightarrow> Inl (Panic ''reflect: call of reflect.Value.SetUint on wrong kind''))"

definition reflect_SetFloat :: "Value \<Rightarrow> float64 \<Rightarrow> failure + goval" where
  "reflect_SetFloat v x =
     (if \<not> CanSet v then Inl (Panic ''reflect: value cannot be set'')
      else if Type_Kind (VType v) = reflect_Float64 then Inr (VFloat x)
      else Inl (Panic ''reflect: call of reflect.Value.SetFloat on wrong kind''))"

definition reflect_Set :: "Value \<Rightarrow> Value \<Rightarrow> failure + goval" where
  "reflect_Set v x =
     (if \<not> CanSet v then Inl (Panic ''reflect: value cannot be set'')
      else if VType x \<noteq> VType v then Inl (Panic ''reflect.Set: value is not assignable to type'')
      else Inr (Cur x))"

text \<open>
  The dynamically typed values the TOML decoder stores into an \<^verbatim>\<open>interface{}\<close>: strings,
  booleans, 64-bit integers, floats, timestamps, arrays, tables and arrays of tables. A
  table is a \<^verbatim>\<open>map[string]interface{}\<close>, given by its entries; \<open>DNilMap\<close> is the nil map
  of that type.
\<close>

datatype dyn =
    DString gostring
  | DBool bool
  | DInt64 "64 word"
  | DFloat64 float64
  | DTime time_Time
  | DSlice "dyn list"
  | DMap "(gostring \<times> dyn) list"
  | DNilMap
  | DMapSlice "(gostring \<times> dyn) list list"

fun reflect_ValueOf :: "dyn \<Rightarrow> Value" where
  "reflect_ValueOf (DString s) =
     \<lparr>VType = Basic reflect_String (str ''string''), CanSet = False, Cur = VString s\<rparr>"
| "reflect_ValueOf (DBool b) =
     \<lparr>VType = Basic reflect_Bool (str ''bool''), CanSet = False, Cur = VBool b\<rparr>"
| "reflect_ValueOf (DInt64 i) =
     \<lparr>VType = Basic reflect_Int64 (str ''int64''), CanSet = False, Cur = VInt i\<rparr>"
| "reflect_ValueOf (DFloat64 f) =
     \<lparr>VType = Basic reflect_Float64 (str ''float64''), CanSet = False, Cur = VFloat f\<rparr>"
| "reflect_ValueOf (DTime t) = \<lparr>VType = typeTime, CanSet = False, Cur = VTime t\<rparr>"
| "reflect_ValueOf (DSlice xs) =
     \<lparr>VType = Basic reflect_Slice (str ''[]interface {}''), CanSet = False, Cur = VOpaque\<rparr>"
| "reflect_ValueOf (DMap m) =
     \<lparr>VType = Basic reflect_Map (str ''map[string]interface {}''), CanSet = False, Cur = VOpaque\<rparr>"
| "reflect_ValueOf DNilMap =
     \<lparr>VType = Basic reflect_Map (str ''map[string]interface {}''), CanSet = False, Cur = VOpaque\<rparr>"
| "reflect_ValueOf (DMapSlice ms) =
     \<lparr>VType = Basic reflect_Slice (str ''[]map[string]interface {}''), CanSet = False, Cur = VOpaque\<rparr>"

definition reflect_TypeOf :: "dyn \<Rightarrow> rtype" where
  "reflect_TypeOf val = VType (reflect_ValueOf val)"

section \<open>The numeric bounds converter\<close>

text \<open>
  \<^verbatim>\<open>int64ToInt\<close> and \<^verbatim>\<open>uint64ToUint\<close>. The result is the mathematical value of the
  native \<^verbatim>\<open>int\<close> (respectively \<^verbatim>\<open>uint\<close>) that the conversion \<^verbatim>\<open>int(i)\<close> yields:
  all 64 bits when \<^verbatim>\<open>sizeOfInt\<close> is 8, the low 32 bits otherwise.
\<close>

definition int64ToInt :: "stdlib \<Rightarrow> 64 word \<Rightarrow> err + int" where
  "int64ToInt L i =
     (if sizeOfInt L = 8 then Inr (sint i)
      else if sint i > 2147483647 then Inl (IntegerTooBig i)
      else if sint i < - 2147483648 then Inl (IntegerTooSmall i)
      else Inr (sint (ucast i :: 32 word)))"

definition uint64ToUint :: "stdlib \<Rightarrow> 64 word \<Rightarrow> err + nat" where
  "uint64ToUint L u =
     (if sizeOfInt L = 8 then Inr (unat u)
      else if unat u > 4294967295 then Inl (UnsignedTooBig u)
      else Inr (unat (ucast u :: 32 word)))"

section \<open>The value parsers\<close>

text \<open>
  Both parsers return the new contents of the field instead of writing through
  \<^verbatim>\<open>fieldVal\<close>; a returned error or a panic leaves the field as it was.
\<close>

definition assignFromEnv :: "stdlib \<Rightarrow> gostring \<Rightarrow> rtype \<Rightarrow> Value \<Rightarrow> failure + goval" where
  "assignFromEnv L envVal fieldType fieldVal =
     (case Type_Kind fieldType of
        reflect_String \<Rightarrow> reflect_SetString fieldVal envVal
      | reflect_Bool \<Rightarrow>
          if envVal \<noteq> str ''true'' \<and> envVal \<noteq> str ''false'' then Inl (Error (InvalidBool envVal))
          else if envVal = str ''true'' then reflect_SetBool fieldVal True
          else reflect_SetBool fieldVal False
      | reflect_Int \<Rightarrow>
          (case strconv_ParseInt L envVal (sizeOfInt L * 8) of
             Inl e \<Rightarrow> Inl (Error e)
           | Inr i \<Rightarrow> reflect_SetInt L fieldVal i)
      | reflect_Int64 \<Rightarrow>
          if fieldType = typeDuration then
            (case time_ParseDuration L envVal of
               Inl e \<Rightarrow> Inl (Error e)
             | Inr dur \<Rightarrow> reflect_SetInt L fieldVal dur)
          else
            (case strconv_ParseInt L envVal 64 of
               Inl e \<Rightarrow> Inl (Error e)
             | Inr i \<Rightarrow> reflect_SetInt L fieldVal i)
      | reflect_Uint \<Rightarrow>
          (case strconv_ParseUint L envVal (sizeOfInt L * 8) of
             Inl e \<Rightarrow> Inl (Error e)
           | Inr u \<Rightarrow> reflect_SetUint L fieldVal u)
      | reflect_Uint64 \<Rightarrow>
          (case strconv_ParseUint L envVal 64 of
             Inl e \<Rightarrow> Inl (Error e)
           | Inr u \<Rightarrow> reflect_SetUint L fieldVal u)
      | reflect_Float64 \<Rightarrow>
          (case strconv_ParseFloat L envVal of
             Inl e \<Rightarrow> Inl (Error e)
           | Inr f \<Rightarrow> reflect_SetFloat fieldVal f)
      | reflect_Struct \<Rightarrow>
          if fieldType \<noteq> typeTime then Inl (Error (UnsupportedStructType (Type_String fieldType)))
          else
            (case time_Parse_RFC3339 L envVal of
               Inl e \<Rightarrow> Inl (Error e)
             | Inr date \<Rightarrow> reflect_Set fieldVal \<lparr>VType = typeTime, CanSet = False, Cur = VTime date\<rparr>)
      | _ \<Rightarrow> Inl (Error (UnsupportedStructType (Type_String fieldType))))"

text \<open>
  In \<^verbatim>\<open>assignFromIntf\<close> every case that does not return falls out of the \<^verbatim>\<open>switch\<close> to
  the final \<^verbatim>\<open>unsupported conversion\<close> error: \<open>unsupported\<close> below. The case of
  \<^verbatim>\<open>time.Time\<close> hands \<^verbatim>\<open>reflect.ValueOf(val)\<close> to \<^verbatim>\<open>Set\<close> without a type assertion.
\<close>

definition unsupported :: "rtype \<Rightarrow> dyn \<Rightarrow> failure + goval" where
  "unsupported fieldType val =
     Inl (Error (UnsupportedConversion (Type_String fieldType) (Type_String (reflect_TypeOf val))))"

definition assignFromIntf :: "stdlib \<Rightarrow> dyn \<Rightarrow> rtype \<Rightarrow> Value \<Rightarrow> failure + goval" where
  "assignFromIntf L val fieldType fieldVal =
     (case Type_Kind fieldType of
        reflect_String \<Rightarrow>
          (case val of DString s \<Rightarrow> reflect_SetString fieldVal s
           | _ \<Rightarrow> unsupported fieldType val)
      | reflect_Bool \<Rightarrow>
          (case val of DBool b \<Rightarrow> reflect_SetBool fieldVal b
           | _ \<Rightarrow> unsupported fieldType val)
      | reflect_Int \<Rightarrow>
          (case val of
             DInt64 i \<Rightarrow>
               (case int64ToInt L i of
                  Inl e \<Rightarrow> Inl (Error e)
                | Inr _ \<Rightarrow> reflect_SetInt L fieldVal i)
           | _ \<Rightarrow> unsupported fieldType val)
      | reflect_Int64 \<Rightarrow>
          if fieldType = typeDuration then
            (case val of
               DString s \<Rightarrow>
                 (case time_ParseDuration L s of
                    Inl e \<Rightarrow> Inl (Error e)
                  | Inr d \<Rightarrow> reflect_Set fieldVal \<lparr>VType = typeDuration, CanSet = False, Cur = VInt d\<rparr>)
             | _ \<Rightarrow> unsupported fieldType val)
          else
            (case val of
               DInt64 i \<Rightarrow>
                 (case int64ToInt L i of
                    Inl e \<Rightarrow> Inl (Error e)
                  | Inr _ \<Rightarrow> reflect_SetInt L fieldVal i)
             | _ \<Rightarrow> unsupported fieldType val)
      | reflect_Uint \<Rightarrow>
          (case val of
             DInt64 i \<Rightarrow>
               (case uint64ToUint L i of
                  Inl e \<Rightarrow> Inl (Error e)
                | Inr _ \<Rightarrow> reflect_SetUint L fieldVal i)
           | _ \<Rightarrow> unsupported fieldType val)
      | reflect_Uint64 \<Rightarrow>
          (case val of DInt64 i \<Rightarrow> reflect_SetUint L fieldVal i
           | _ \<Rightarrow> unsupported fieldType val)
      | reflect_Float64 \<Rightarrow>
          (case val of DFloat64 f \<Rightarrow> reflect_SetFloat fieldVal f
           | _ \<Rightarrow> unsupported fieldType val)
      | reflect_Struct \<Rightarrow>
          if fieldType = typeTime then reflect_Set fieldVal (reflect_ValueOf val)
          else unsupported fieldType val
      | reflect_Slice \<Rightarrow>
          if fieldType = typeStringArr then
            (case val of
               DSlice s \<Rightarrow>
                 reflect_Set fieldVal
                   \<lparr>VType = typeStringArr, CanSet = False,
                    Cur = VStrings (map (\<lambda>x. case x of DString st \<Rightarrow> st | _ \<Rightarrow> []) s)\<rparr>
             | _ \<Rightarrow> unsupported fieldType val)
          else unsupported fieldType val
      | _ \<Rightarrow> unsupported fieldType val)"

section \<open>The key resolver\<close>

definition getKeyName :: "stdlib \<Rightarrow> StructField \<Rightarrow> gostring" where
  "getKeyName L f =
     (let tag = Tag_Get (Tag f) (str ''shift'') in
      if tag = str ''-'' then []
      else if length tag \<noteq> 0 then tag
      else toCamel L (Name f))"

section \<open>The binder\<close>

text \<open>
  The struct that \<^verbatim>\<open>val\<close> stands for is the list of the values of its fields; \<open>None\<close> is
  the zero \<^verbatim>\<open>reflect.Value\<close> that \<^verbatim>\<open>reflect.Indirect\<close> gives for a nil pointer, on
  which \<^verbatim>\<open>Field\<close> panics. A field reached through \<^verbatim>\<open>val.Field(i)\<close> can be set exactly
  when it is exported, that is when its \<^verbatim>\<open>PkgPath\<close> is empty.
\<close>

definition Value_Field :: "rtype \<Rightarrow> goval list option \<Rightarrow> nat \<Rightarrow> failure + Value" where
  "Value_Field typ val i =
     (case val of
        None \<Rightarrow> Inl (Panic ''reflect: call of reflect.Value.Field on zero Value'')
      | Some vs \<Rightarrow>
          if i < length vs \<and> i < Type_NumField typ then
            Inr \<lparr>VType = Type (Type_Field typ i),
                 CanSet = (PkgPath (Type_Field typ i) = []),
                 Cur = vs ! i\<rparr>
          else Inl (Panic ''reflect: Field index out of range''))"

definition store :: "goval list option \<Rightarrow> nat \<Rightarrow> goval \<Rightarrow> goval list option" where
  "store val i x = map_option (\<lambda>vs. vs[i := x]) val"

text \<open>
  The environment is the function \<open>getenv\<close> (\<^verbatim>\<open>os.Getenv\<close>: the empty string for an unset
  variable); \<open>config\<close> is the map of the active section, the nil map being the empty one.
  \<open>bind_field\<close> is the body of the loop of \<^verbatim>\<open>bind\<close> for the field of index \<open>i\<close>: \<open>Inr\<close> the
  struct after the iteration when the loop goes on, \<open>Inl\<close> the failure when the function
  returns an error or panics. \<open>bind_loop\<close> is the loop from index \<open>i\<close> on; it returns the
  struct as the call leaves it and the error or panic, if any.
\<close>

definition wrap_key :: "gostring \<Rightarrow> failure + goval \<Rightarrow> goval list option \<Rightarrow> nat
    \<Rightarrow> failure + goval list option" where
  "wrap_key key r val i =
     (case r of
        Inl (Error e) \<Rightarrow> Inl (Error (FailedToAssignKey e key))
      | Inl (Panic p) \<Rightarrow> Inl (Panic p)
      | Inr x \<Rightarrow> Inr (store val i x))"

definition bind_field :: "stdlib \<Rightarrow> (gostring \<Rightarrow> gostring) \<Rightarrow> gostring \<Rightarrow> rtype
    \<Rightarrow> goval list option \<Rightarrow> (gostring \<rightharpoonup> dyn) \<Rightarrow> nat \<Rightarrow> failure + goval list option" where
  "bind_field L getenv envPrefix typ val config i =
     (let f = Type_Field typ i;
          key = getKeyName L f
      in if length key = 0 then Inr val
         else
           let envKey = (if length envPrefix \<noteq> 0 then envPrefix @ str ''_'' @ key else key);
               envVal = getenv (strings_ToUpper L envKey)
           in if length envVal \<noteq> 0 then
                (case Value_Field typ val i of
                   Inl p \<Rightarrow> Inl p
                 | Inr fv \<Rightarrow> wrap_key key (assignFromEnv L envVal (Type f) fv) val i)
              else
                (case config key of
                   Some intf \<Rightarrow>
                     (case Value_Field typ val i of
                        Inl p \<Rightarrow> Inl p
                      | Inr fv \<Rightarrow> wrap_key key (assignFromIntf L intf (Type f) fv) val i)
                 | None \<Rightarrow> Inr val))"

function bind_loop :: "stdlib \<Rightarrow> (gostring \<Rightarrow> gostring) \<Rightarrow> gostring \<Rightarrow> rtype
    \<Rightarrow> goval list option \<Rightarrow> (gostring \<rightharpoonup> dyn) \<Rightarrow> nat \<Rightarrow> goval list option \<times> failure option" where
  "bind_loop L getenv envPrefix typ val config i =
     (if i < Type_NumField typ then
        (case bind_field L getenv envPrefix typ val config i of
           Inl f \<Rightarrow> (val, Some f)
         | Inr val' \<Rightarrow> bind_loop L getenv envPrefix typ val' config (i + 1))
      else (val, None))"
  by pat_completeness auto
termination
  by (relation "measure (\<lambda>(L, getenv, envPrefix, typ, val, config, i). Type_NumField typ - i)") auto

definition bind :: "stdlib \<Rightarrow> (gostring \<Rightarrow> gostring) \<Rightarrow> gostring \<Rightarrow> rtype
    \<Rightarrow> goval list option \<Rightarrow> (gostring \<rightharpoonup> dyn) \<Rightarrow> goval list option \<times> failure option" where
  "bind L getenv envPrefix typ val config = bind_loop L getenv envPrefix typ val config 0"

section \<open>The loader\<close>

text \<open>
  The argument \<^verbatim>\<open>c\<close> is an \<^verbatim>\<open>interface{}\<close>: nil, or a value of some dynamic type. For a
  pointer to a struct, \<open>Arg t p\<close> carries in \<open>p\<close> the values of the fields of the struct
  pointed to (\<open>None\<close> for a nil pointer); for any other type \<open>p\<close> plays no role.
\<close>

datatype arg = NilInterface | Arg rtype "goval list option"

text \<open>
  The type assertion \<^verbatim>\<open>x.(map[string]interface{})\<close> in its one-result form: it panics
  unless \<open>x\<close> holds a map of that type. Its result is \<open>None\<close> for the nil map.
\<close>

fun assert_map :: "dyn option \<Rightarrow> failure + (gostring \<times> dyn) list option" where
  "assert_map None = Inl (Panic ''interface conversion: interface {} is nil, not map[string]interface {}'')"
| "assert_map (Some (DMap m)) = Inr (Some m)"
| "assert_map (Some DNilMap) = Inr None"
| "assert_map (Some _) = Inl (Panic ''interface conversion: interface {} is not map[string]interface {}'')"

text \<open>
  Lines 66 to 73 of \<^verbatim>\<open>Load\<close>: the map \<^verbatim>\<open>m\<close> handed to \<^verbatim>\<open>bind\<close>, from the decoded value
  \<^verbatim>\<open>i\<close> and the name \<^verbatim>\<open>env\<close>. Indexing a map with a missing key gives the nil interface.
\<close>

definition envLevel :: "dyn option \<Rightarrow> gostring \<Rightarrow> failure + (gostring \<rightharpoonup> dyn)" where
  "envLevel i env =
     (if i \<noteq> None then
        (case assert_map i of
           Inl p \<Rightarrow> Inl p
         | Inr topLevel \<Rightarrow>
             (case topLevel of
                Some entries \<Rightarrow>
                  (case assert_map (map_of entries env) of
                     Inl p \<Rightarrow> Inl p
                   | Inr None \<Rightarrow> Inr Map.empty
                   | Inr (Some m) \<Rightarrow> Inr (map_of m))
              | None \<Rightarrow> Inr Map.empty))
      else Inr Map.empty)"

text \<open>
  \<^verbatim>\<open>Load\<close>. The file decoder \<^verbatim>\<open>testHarnessDecodeFile\<close> is the function \<open>decodeFile\<close>: from
  the path to what it leaves in \<^verbatim>\<open>i\<close> (\<open>None\<close> for nil) and the error it returns. The
  result is the struct as the call leaves it, and the error or panic, if any.
\<close>

definition Load :: "stdlib \<Rightarrow> (gostring \<Rightarrow> dyn option \<times> err option) \<Rightarrow> (gostring \<Rightarrow> gostring)
    \<Rightarrow> arg \<Rightarrow> gostring \<Rightarrow> gostring \<Rightarrow> gostring \<Rightarrow> goval list option \<times> failure option" where
  "Load L decodeFile getenv c file envPrefix env =
     (case c of
        NilInterface \<Rightarrow> (None, Some (Panic ''invalid memory address or nil pointer dereference''))
      | Arg typ p \<Rightarrow>
          if Type_Kind typ \<noteq> reflect_Ptr then
            (p, Some (Error (NotPointerToStruct (Type_String typ))))
          else
            (case Type_Elem typ of
               None \<Rightarrow> (p, Some (Panic ''reflect: Elem of invalid type''))
             | Some typ \<Rightarrow>
                 if Type_Kind typ \<noteq> reflect_Struct then
                   (p, Some (Error (NotPointerToStruct (Type_String typ))))
                 else
                   let val = p;
                       (i, err) = decodeFile file
                   in (case (case err of None \<Rightarrow> None
                                 | Some e \<Rightarrow> if os_IsNotExist e then None else Some e) of
                         Some e \<Rightarrow> (val, Some (Error e))
                       | None \<Rightarrow>
                           (case envLevel i env of
                              Inl f \<Rightarrow> (val, Some f)
                            | Inr m \<Rightarrow> bind L getenv envPrefix typ val m))))"

section \<open>Notions used in the statements\<close>

text \<open>
  The name under which \<^verbatim>\<open>bind\<close> looks a key up in the environment (lines 88 to 92):
  the key, preceded by the prefix and an underscore when the prefix is not empty, in
  upper case. The environment provides a value for a field when the key of the field is
  not empty and the variable of that name is not the empty string.
\<close>

definition envLookupName :: "stdlib \<Rightarrow> gostring \<Rightarrow> gostring \<Rightarrow> gostring" where
  "envLookupName L envPrefix key =
     strings_ToUpper L (if envPrefix = [] then key else envPrefix @ str ''_'' @ key)"

definition env_provides :: "stdlib \<Rightarrow> (gostring \<Rightarrow> gostring) \<Rightarrow> gostring \<Rightarrow> StructField \<Rightarrow> bool" where
  "env_provides L getenv envPrefix f =
     (getKeyName L f \<noteq> [] \<and> getenv (envLookupName L envPrefix (getKeyName L f)) \<noteq> [])"

section \<open>A worked example\<close>

text \<open>
  One standard library, to run the definitions on concrete inputs. Its case tables are
  those of Go on the code points used below: the ASCII range, where \<open>A\<close> to \<open>Z\<close> are the
  uppercase letters, and U+2102 (DOUBLE-STRUCK CAPITAL C), which is an uppercase letter
  (category Lu) without a lowercase mapping, so that \<^verbatim>\<open>unicode.IsUpper\<close> holds of it and
  \<^verbatim>\<open>unicode.ToLower\<close> returns it unchanged. Its parsers accept no input; the examples
  do not reach them.
\<close>

definition sample_lib :: stdlib where
  "sample_lib =
     \<lparr>sizeOfInt = 8,
      unicode_IsUpper = (\<lambda>r. (65 \<le> r \<and> r \<le> 90) \<or> r = 8450),
      unicode_ToLower = (\<lambda>r. if 65 \<le> r \<and> r \<le> 90 then r + 32 else r),
      strings_ToUpper = map (\<lambda>r. if 97 \<le> r \<and> r \<le> 122 then r - 32 else r),
      strconv_ParseInt = (\<lambda>s bitSize. Inl (LibraryError (str ''invalid syntax''))),
      strconv_ParseUint = (\<lambda>s bitSize. Inl (LibraryError (str ''invalid syntax''))),
      strconv_ParseFloat = (\<lambda>s. Inl (LibraryError (str ''invalid syntax''))),
      time_ParseDuration = (\<lambda>s. Inl (LibraryError (str ''invalid duration''))),
      time_Parse_RFC3339 = (\<lambda>s. Inl (LibraryError (str ''cannot parse'')))\<rparr>"

text \<open>
  A target in the style of the tests of the package:
  \<^verbatim>\<open>struct { TLSBind string; Bind string; Port uint64; Secret string `shift:"-"` }\<close>,
  an environment that sets only \<^verbatim>\<open>BIND\<close>, a second one that also sets \<^verbatim>\<open>PORT\<close> to
  \<^verbatim>\<open>abc\<close>, which is not a number, and a file with the sections \<^verbatim>\<open>dev\<close> and \<^verbatim>\<open>prod\<close>. The decoder reports a missing file for \<^verbatim>\<open>missing.toml\<close> and a syntax error
  for \<^verbatim>\<open>broken.toml\<close>.
\<close>

definition sample_type :: rtype where
  "sample_type = StructOf (str ''main.Config'')
     [StructField (str ''TLSBind'') [] (Basic reflect_String (str ''string'')) [],
      StructField (str ''Bind'') [] (Basic reflect_String (str ''string'')) [],
      StructField (str ''Port'') [] (Basic reflect_Uint64 (str ''uint64'')) [],
      StructField (str ''Secret'') [] (Basic reflect_String (str ''string''))
        [(str ''shift'', str ''-'')]]"

definition sample_vals :: "goval list" where
  "sample_vals = [VString (str ''old''), VString [], VUint 7, VString (str ''hunter2'')]"

definition sample_getenv :: "gostring \<Rightarrow> gostring" where
  "sample_getenv name = (if name = str ''BIND'' then str '':4000'' else [])"


definition sample_section :: "(gostring \<times> dyn) list" where
  "sample_section = [(str ''bind'', DString (str '':3999'')), (str ''port'', DInt64 (- 1)),
                     (str ''secret'', DString (str ''leak''))]"

definition sample_file :: dyn where
  "sample_file = DMap [(str ''dev'', DMap sample_section), (str ''prod'', DMap [])]"

definition sample_decodeFile :: "gostring \<Rightarrow> dyn option \<times> err option" where
  "sample_decodeFile path =
     (if path = str ''missing.toml'' then (None, Some (ErrNotExist path))
      else if path = str ''broken.toml'' then (None, Some (LibraryError (str ''toml: syntax error'')))
      else (Some sample_file, None))"

declare toCamel_loop.simps [simp del]
declare bind_loop.simps [simp del]

section \<open>Properties of toCamel\<close>

lemma toCamel_loop_spec:
  "i \<le> length r \<Longrightarrow> lastU = (i \<noteq> 0 \<and> unicode_IsUpper L (r ! (i - 1))) \<Longrightarrow>
   toCamel_loop L r i lastU b =
     b @ concat (map (\<lambda>i. (if underscore_before L r i then [95] else []) @ [unicode_ToLower L (r ! i)]) [i..<length r])"
proof (induction L r i lastU b rule: toCamel_loop.induct)
  case (1 L r i lastU b)
  show ?case
  proof (cases "i < length r")
    case False
    with "1.prems" show ?thesis by (subst toCamel_loop.simps) simp
  next
    case True
    then have ups: "[i..<length r] = i # [Suc i..<length r]" by (simp add: upt_conv_Cons)
    show ?thesis
      using True "1.prems" "1.IH"[OF True refl refl refl]
      apply (subst toCamel_loop.simps)
      apply (simp add: ups Let_def underscore_before_def)
      done
  qed
qed

lemma toCamel_no_upper:
  assumes "\<forall>x \<in> set r. \<not> unicode_IsUpper L x \<and> unicode_ToLower L x = x"
  shows "toCamel_spec L r = r"
proof -
  have "\<And>i. i < length r \<Longrightarrow> \<not> underscore_before L r i \<and> unicode_ToLower L (r ! i) = r ! i"
    using assms by (simp add: underscore_before_def)
  then have "map (\<lambda>i. (if underscore_before L r i then [95] else []) @ [unicode_ToLower L (r ! i)]) [0..<length r]
      = map (\<lambda>i. [r ! i]) [0..<length r]"
    by simp
  then have "toCamel_spec L r = concat (map (\<lambda>i. [r ! i]) [0..<length r])"
    unfolding toCamel_spec_def by (rule arg_cong)
  also have "\<dots> = r" by (simp add: map_nth)
  finally show ?thesis .
qed

lemma set_toCamel_spec:
  "set (toCamel_spec L r) \<subseteq> insert 95 (unicode_ToLower L ` set r)"
  by (auto simp: toCamel_spec_def)

lemma toCamel_eq_spec: "toCamel L s = toCamel_spec L s"
  by (simp add: toCamel_def toCamel_spec_def toCamel_loop_spec)

lemma sample_ascii: "ascii_case sample_lib"
  by (simp add: ascii_case_def sample_lib_def)

lemma ascii_lower_fixed:
  assumes "ascii_case L" "x < 128"
  shows "\<not> unicode_IsUpper L (unicode_ToLower L x) \<and>
         unicode_ToLower L (unicode_ToLower L x) = unicode_ToLower L x"
proof (cases "65 \<le> x \<and> x \<le> 90")
  case True
  with assms have l: "unicode_ToLower L x = x + 32" by (simp add: ascii_case_def)
  from True have "x + 32 < 128" by simp
  with assms(1) True l show ?thesis by (simp add: ascii_case_def)
next
  case False
  with assms have "unicode_ToLower L x = x" "\<not> unicode_IsUpper L x"
    by (simp_all add: ascii_case_def)
  then show ?thesis by simp
qed

section \<open>Properties of the bounds converter\<close>

lemma narrow_sint:
  fixes i :: "64 word"
  assumes "- 2147483648 \<le> sint i" "sint i \<le> 2147483647"
  shows "sint (ucast i :: 32 word) = sint i"
proof -
  have "take_bit 32 (uint i) = take_bit 32 (sint i)"
    by (simp add: uint_sint)
  then have "signed_take_bit 31 (uint i) = signed_take_bit 31 (sint i)"
    by (simp add: signed_take_bit_eq_iff_take_bit_eq)
  also have "\<dots> = sint i"
    using assms by (intro signed_take_bit_int_eq_self) simp_all
  finally show ?thesis by (simp add: signed_ucast_eq)
qed

lemma narrow_unat:
  fixes u :: "64 word"
  assumes "unat u \<le> 4294967295"
  shows "unat (ucast u :: 32 word) = unat u"
  using assms by (simp add: unsigned_ucast_eq take_bit_nat_eq_self)

lemma narrow_ucast:
  fixes u :: "64 word"
  assumes "unat u \<le> 4294967295"
  shows "(ucast (ucast u :: 32 word) :: 64 word) = u"
proof -
  have "unat (ucast (ucast u :: 32 word) :: 64 word) = unat u"
    using assms by (simp add: unsigned_ucast_eq unsigned_take_bit_eq take_bit_nat_eq_self)
  then show ?thesis by (rule unsigned_word_eqI)
qed

lemma uint_neg:
  fixes v :: "64 word"
  shows "uint v = sint v mod 2 ^ 64"
  by (simp add: uint_sint take_bit_eq_mod)

lemma int64ToInt_32:
  "sizeOfInt L \<noteq> 8 \<Longrightarrow>
   int64ToInt L i =
     (if sint i > 2147483647 then Inl (IntegerTooBig i)
      else if sint i < - 2147483648 then Inl (IntegerTooSmall i)
      else Inr (sint i))"
  by (simp add: int64ToInt_def narrow_sint)

lemma uint64ToUint_32:
  "sizeOfInt L \<noteq> 8 \<Longrightarrow>
   uint64ToUint L u = (if unat u > 4294967295 then Inl (UnsignedTooBig u) else Inr (unat u))"
  by (simp add: uint64ToUint_def narrow_unat)

section \<open>Properties of the binder\<close>

lemma wrap_key_Inr:
  "wrap_key key r val i = Inr val' \<Longrightarrow> \<exists>x. r = Inr x \<and> val' = store val i x"
  by (auto simp: wrap_key_def split: sum.splits failure.splits)

lemma bind_field_alt:
  "bind_field L getenv envPrefix ty val config i =
     (let key = getKeyName L (Type_Field ty i) in
      if key = [] then Inr val
      else if getenv (envLookupName L envPrefix key) \<noteq> [] then
        (case Value_Field ty val i of
           Inl p \<Rightarrow> Inl p
         | Inr fv \<Rightarrow>
             wrap_key key (assignFromEnv L (getenv (envLookupName L envPrefix key))
                              (Type (Type_Field ty i)) fv) val i)
      else
        (case config key of
           Some intf \<Rightarrow>
             (case Value_Field ty val i of
                Inl p \<Rightarrow> Inl p
              | Inr fv \<Rightarrow> wrap_key key (assignFromIntf L intf (Type (Type_Field ty i)) fv) val i)
         | None \<Rightarrow> Inr val))"
  by (cases "envPrefix = []")
     (simp_all add: bind_field_def envLookupName_def Let_def cong: sum.case_cong option.case_cong)

lemma bind_field_skip:
  "getKeyName L (Type_Field ty i) = [] \<Longrightarrow> bind_field L getenv envPrefix ty val config i = Inr val"
  by (simp add: bind_field_alt)

lemma bind_field_unset:
  "getenv (envLookupName L envPrefix (getKeyName L (Type_Field ty i))) = [] \<Longrightarrow>
   config (getKeyName L (Type_Field ty i)) = None \<Longrightarrow>
   bind_field L getenv envPrefix ty val config i = Inr val"
  by (simp add: bind_field_alt Let_def)


lemma bind_field_Inr:
  "bind_field L getenv envPrefix ty val config i = Inr val' \<Longrightarrow>
   val' = val \<or> (\<exists>x. val' = store val i x)"
  by (auto simp: bind_field_alt Let_def split: if_splits sum.splits option.splits dest: wrap_key_Inr)

lemma store_other: "store (Some vs) i x = Some vs' \<Longrightarrow> j \<noteq> i \<Longrightarrow> vs' ! j = vs ! j \<and> length vs' = length vs"
  by (auto simp: store_def)

lemma bind_field_other:
  assumes "bind_field L getenv envPrefix ty (Some vs) config i = Inr val'"
  shows "\<exists>vs'. val' = Some vs' \<and> length vs' = length vs \<and> (\<forall>j. j \<noteq> i \<longrightarrow> vs' ! j = vs ! j)"
  using bind_field_Inr [OF assms] by (auto simp: store_def)

lemma bind_loop_done:
  "\<not> k < Type_NumField ty \<Longrightarrow> bind_loop L getenv envPrefix ty val config k = (val, None)"
  by (simp add: bind_loop.simps)

lemma bind_loop_fail:
  "k < Type_NumField ty \<Longrightarrow> bind_field L getenv envPrefix ty val config k = Inl f \<Longrightarrow>
   bind_loop L getenv envPrefix ty val config k = (val, Some f)"
  by (simp add: bind_loop.simps)

lemma bind_loop_next:
  "k < Type_NumField ty \<Longrightarrow> bind_field L getenv envPrefix ty val config k = Inr v1 \<Longrightarrow>
   bind_loop L getenv envPrefix ty val config k = bind_loop L getenv envPrefix ty v1 config (Suc k)"
  by (simp add: bind_loop.simps [of _ _ _ _ val])


lemma bind_loop_untouched:
  "bind_loop L getenv envPrefix ty (Some vs) config k = (val', r) \<Longrightarrow>
   getKeyName L (Type_Field ty i) = [] \<or>
     (getenv (envLookupName L envPrefix (getKeyName L (Type_Field ty i))) = [] \<and>
      config (getKeyName L (Type_Field ty i)) = None) \<Longrightarrow>
   \<exists>vs'. val' = Some vs' \<and> length vs' = length vs \<and> vs' ! i = vs ! i"
proof (induction "Type_NumField ty - k" arbitrary: k vs)
  case 0
  then have "\<not> k < Type_NumField ty" by simp
  from bind_loop_done [OF this, of L getenv envPrefix "Some vs" config] "0.prems" show ?case by auto
next
  case (Suc d)
  then have lt: "k < Type_NumField ty" by simp
  show ?case
  proof (cases "bind_field L getenv envPrefix ty (Some vs) config k")
    case (Inl f)
    from bind_loop_fail [OF lt Inl] Suc.prems show ?thesis by auto
  next
    case (Inr v1)
    from bind_field_other [OF Inr] obtain ws where
      ws: "v1 = Some ws" "length ws = length vs" "\<forall>j. j \<noteq> k \<longrightarrow> ws ! j = vs ! j" by blast
    have same: "ws ! i = vs ! i"
    proof (cases "i = k")
      case True
      with Suc.prems(2) Inr ws show ?thesis
        by (auto simp: bind_field_skip bind_field_unset)
    next
      case False
      with ws show ?thesis by simp
    qed
    have run: "bind_loop L getenv envPrefix ty (Some ws) config (Suc k) = (val', r)"
      using bind_loop_next [OF lt Inr] Suc.prems ws by simp
    have "d = Type_NumField ty - Suc k" using Suc.hyps(2) by simp
    from Suc.hyps(1) [OF this run Suc.prems(2)] ws same show ?thesis by auto
  qed
qed








lemma bind_field_Error:
  "bind_field L getenv envPrefix ty val config i = Inl (Error e) \<Longrightarrow>
   \<exists>e' key. e = FailedToAssignKey e' key"
  by (auto simp: bind_field_alt Let_def wrap_key_def Value_Field_def
           split: if_splits sum.splits option.splits failure.splits)

lemma bind_loop_Error:
  "bind_loop L getenv envPrefix ty val config k = (val', Some (Error e)) \<Longrightarrow>
   \<exists>e' key. e = FailedToAssignKey e' key"
proof (induction "Type_NumField ty - k" arbitrary: k val)
  case 0
  then have "\<not> k < Type_NumField ty" by simp
  from bind_loop_done [OF this, of L getenv envPrefix val config] "0.prems" show ?case by simp
next
  case (Suc d)
  then have lt: "k < Type_NumField ty" by simp
  show ?case
  proof (cases "bind_field L getenv envPrefix ty val config k")
    case (Inl f)
    from bind_loop_fail [OF lt Inl] Suc.prems have "f = Error e" by simp
    with Inl show ?thesis by (auto dest: bind_field_Error)
  next
    case (Inr v1)
    have "d = Type_NumField ty - Suc k" using Suc.hyps(2) by simp
    moreover have "bind_loop L getenv envPrefix ty v1 config (Suc k) = (val', Some (Error e))"
      using bind_loop_next [OF lt Inr] Suc.prems by simp
    ultimately show ?thesis by (rule Suc.hyps(1))
  qed
qed

section \<open>Properties of the loader and of the file-source parser\<close>

lemma Load_struct:
  "Load L decodeFile getenv (Arg (PtrTo (StructOf n fs)) p) file envPrefix env =
     (case decodeFile file of
        (i, err) \<Rightarrow>
          (case (case err of None \<Rightarrow> None
                 | Some e \<Rightarrow> if os_IsNotExist e then None else Some e) of
             Some e \<Rightarrow> (p, Some (Error e))
           | None \<Rightarrow>
               (case envLevel i env of
                  Inl f \<Rightarrow> (p, Some f)
                | Inr m \<Rightarrow> bind L getenv envPrefix (StructOf n fs) p m)))"
  by (simp add: Load_def)

lemma Load_not_pointer:
  "Type_Kind t \<noteq> reflect_Ptr \<Longrightarrow>
   Load L decodeFile getenv (Arg t p) file envPrefix env = (p, Some (Error (NotPointerToStruct (Type_String t))))"
  by (simp add: Load_def)

lemma Load_pointer_to_non_struct:
  "Type_Kind t \<noteq> reflect_Struct \<Longrightarrow>
   Load L decodeFile getenv (Arg (PtrTo t) p) file envPrefix env = (p, Some (Error (NotPointerToStruct (Type_String t))))"
  by (simp add: Load_def)

lemma assignFromIntf_text_for_int:
  "Type_Kind fieldType = reflect_Int \<Longrightarrow>
   assignFromIntf L (DString s) fieldType fv = unsupported fieldType (DString s)"
  by (simp add: assignFromIntf_def)

section \<open>The worked example, evaluated\<close>

lemma sample_num: "Type_NumField sample_type = 4"
  by (simp add: Type_NumField_def sample_type_def)

lemma sample_keys:
  "getKeyName sample_lib (Type_Field sample_type 0) = str ''tls_bind''"
  "getKeyName sample_lib (Type_Field sample_type (Suc 0)) = str ''bind''"
  "getKeyName sample_lib (Type_Field sample_type (Suc (Suc 0))) = str ''port''"
  "getKeyName sample_lib (Type_Field sample_type (Suc (Suc (Suc 0)))) = []"
  by (simp_all add: getKeyName_def Type_Field_def sample_type_def Tag_Get_def toCamel_def
        toCamel_loop.simps sample_lib_def str_def)

lemma sample_types:
  "Type (Type_Field sample_type (Suc 0)) = Basic reflect_String (str ''string'')"
  "Type (Type_Field sample_type (Suc (Suc 0))) = Basic reflect_Uint64 (str ''uint64'')"
  by (simp_all add: Type_Field_def sample_type_def)

lemma sample_names:
  "sample_getenv (envLookupName sample_lib [] (str ''tls_bind'')) = []"
  "sample_getenv (envLookupName sample_lib [] (str ''bind'')) = str '':4000''"
  "sample_getenv (envLookupName sample_lib [] (str ''port'')) = []"
  by (simp_all add: sample_getenv_def envLookupName_def sample_lib_def str_def)

lemma sample_entries:
  "map_of sample_section (str ''tls_bind'') = None"
  "map_of sample_section (str ''bind'') = Some (DString (str '':3999''))"
  "map_of sample_section (str ''port'') = Some (DInt64 (- 1))"
  by (simp_all add: sample_section_def str_def)

lemma sample_slots:
  "Value_Field sample_type (Some [a, b, c, d]) (Suc 0) =
     Inr \<lparr>VType = Basic reflect_String (str ''string''), CanSet = True, Cur = b\<rparr>"
  "Value_Field sample_type (Some [a, b, c, d]) (Suc (Suc 0)) =
     Inr \<lparr>VType = Basic reflect_Uint64 (str ''uint64''), CanSet = True, Cur = c\<rparr>"
  by (simp_all add: Value_Field_def Type_NumField_def Type_Field_def sample_type_def)

lemma str_Cons_ne: "str (c # cs) \<noteq> []"
  by (simp add: str_def)

lemma sample_steps:
  "bind_field sample_lib sample_getenv [] sample_type (Some [a, b, c, d]) (map_of sample_section) 0
     = Inr (Some [a, b, c, d])"
  "bind_field sample_lib sample_getenv [] sample_type (Some [a, b, c, d]) (map_of sample_section) (Suc 0)
     = Inr (Some [a, VString (str '':4000''), c, d])"
  "bind_field sample_lib sample_getenv [] sample_type (Some [a, b, c, d]) (map_of sample_section) (Suc (Suc 0))
     = Inr (Some [a, b, VUint (- 1), d])"
  "bind_field sample_lib sample_getenv [] sample_type (Some [a, b, c, d]) (map_of sample_section) (Suc (Suc (Suc 0)))
     = Inr (Some [a, b, c, d])"
     apply (simp add: bind_field_alt Let_def sample_keys sample_names sample_entries str_Cons_ne)
    apply (simp add: bind_field_alt Let_def sample_keys sample_names sample_slots sample_types
             assignFromEnv_def reflect_SetString_def wrap_key_def store_def str_Cons_ne)
   apply (simp add: bind_field_alt Let_def sample_keys sample_names sample_entries sample_slots sample_types
             assignFromIntf_def reflect_SetUint_def wrap_key_def store_def str_Cons_ne)
  apply (simp add: bind_field_alt Let_def sample_keys)
  done

lemma sample_bind:
  "bind sample_lib sample_getenv [] sample_type (Some sample_vals) (map_of sample_section)
   = (Some [VString (str ''old''), VString (str '':4000''), VUint (- 1), VString (str ''hunter2'')], None)"
  by (simp add: bind_def sample_vals_def bind_loop.simps sample_num sample_steps)

lemma sample_envLevel:
  "envLevel (Some sample_file) (str ''dev'') = Inr (map_of sample_section)"
  by (simp add: envLevel_def sample_file_def str_def)

lemma sample_Load:
  "Load sample_lib sample_decodeFile sample_getenv (Arg (PtrTo sample_type) (Some sample_vals))
     (str ''config.toml'') [] (str ''dev'')
   = (Some [VString (str ''old''), VString (str '':4000''), VUint (- 1), VString (str ''hunter2'')], None)"
proof -
  have "sample_decodeFile (str ''config.toml'') = (Some sample_file, None)"
    by (simp add: sample_decodeFile_def str_def)
  then show ?thesis
    using sample_bind by (simp add: sample_type_def Load_struct sample_envLevel)
qed


lemma sample_steps_nofile:
  "bind_field sample_lib sample_getenv [] sample_type (Some [a, b, c, d]) Map.empty 0
     = Inr (Some [a, b, c, d])"
  "bind_field sample_lib sample_getenv [] sample_type (Some [a, b, c, d]) Map.empty (Suc 0)
     = Inr (Some [a, VString (str '':4000''), c, d])"
  "bind_field sample_lib sample_getenv [] sample_type (Some [a, b, c, d]) Map.empty (Suc (Suc 0))
     = Inr (Some [a, b, c, d])"
  "bind_field sample_lib sample_getenv [] sample_type (Some [a, b, c, d]) Map.empty (Suc (Suc (Suc 0)))
     = Inr (Some [a, b, c, d])"
     apply (simp add: bind_field_alt Let_def sample_keys sample_names str_Cons_ne)
    apply (simp add: bind_field_alt Let_def sample_keys sample_names sample_slots sample_types
             assignFromEnv_def reflect_SetString_def wrap_key_def store_def str_Cons_ne)
   apply (simp add: bind_field_alt Let_def sample_keys sample_names str_Cons_ne)
  apply (simp add: bind_field_alt Let_def sample_keys)
  done

lemma sample_bind_nofile:
  "bind sample_lib sample_getenv [] sample_type (Some sample_vals) Map.empty
   = (Some [VString (str ''old''), VString (str '':4000''), VUint 7, VString (str ''hunter2'')], None)"
  by (simp add: bind_def sample_vals_def bind_loop.simps sample_num sample_steps_nofile)

lemma sample_decode:
  "sample_decodeFile (str ''config.toml'') = (Some sample_file, None)"
  "sample_decodeFile (str ''missing.toml'') = (None, Some (ErrNotExist (str ''missing.toml'')))"
  "sample_decodeFile (str ''broken.toml'') = (None, Some (LibraryError (str ''toml: syntax error'')))"
  by (simp_all add: sample_decodeFile_def str_def)







section \<open>The claims\<close>

text \<open>
  Claim C1. For every string, \<^verbatim>\<open>toCamel\<close> writes every character lowercased and puts
  an underscore before an uppercase character exactly when it is not the first character
  and either the preceding character is not uppercase or the following character exists
  and is not uppercase: the loop of the source computes \<open>toCamel_spec\<close>, which is this
  rule position by position. With the ASCII case tables, \<^verbatim>\<open>oneTwo\<close> and \<^verbatim>\<open>OneTwo\<close>
  give \<^verbatim>\<open>one_two\<close>, \<^verbatim>\<open>OneTWOThree\<close> gives \<^verbatim>\<open>one_two_three\<close> and \<^verbatim>\<open>ONETWOThree\<close>
  gives \<^verbatim>\<open>onetwo_three\<close>.
\<close>

theorem toCamel_rule:
  "toCamel L s = toCamel_spec L s \<and>
   (ascii_case L \<longrightarrow>
      toCamel L (str ''oneTwo'') = str ''one_two'' \<and>
      toCamel L (str ''OneTwo'') = str ''one_two'' \<and>
      toCamel L (str ''OneTWOThree'') = str ''one_two_three'' \<and>
      toCamel L (str ''ONETWOThree'') = str ''onetwo_three'')"
proof (intro conjI impI)
  show "toCamel L s = toCamel_spec L s" by (rule toCamel_eq_spec)
next
  assume "ascii_case L"
  then show "toCamel L (str ''oneTwo'') = str ''one_two''"
    by (simp add: toCamel_def toCamel_loop.simps str_def ascii_case_def)
next
  assume "ascii_case L"
  then show "toCamel L (str ''OneTwo'') = str ''one_two''"
    by (simp add: toCamel_def toCamel_loop.simps str_def ascii_case_def)
next
  assume "ascii_case L"
  then show "toCamel L (str ''OneTWOThree'') = str ''one_two_three''"
    by (simp add: toCamel_def toCamel_loop.simps str_def ascii_case_def)
next
  assume "ascii_case L"
  then show "toCamel L (str ''ONETWOThree'') = str ''onetwo_three''"
    by (simp add: toCamel_def toCamel_loop.simps str_def ascii_case_def)
qed

text \<open>
  The rule at the field name \<^verbatim>\<open>IDMonster\<close> of the tests, with the case tables of the
  worked example.
\<close>

theorem toCamel_rule_witness:
  "ascii_case sample_lib \<and>
   toCamel sample_lib (str ''IDMonster'') = toCamel_spec sample_lib (str ''IDMonster'') \<and>
   toCamel sample_lib (str ''ONETWOThree'') = str ''onetwo_three''"
  using toCamel_rule [of sample_lib "str ''IDMonster''"] sample_ascii by simp

text \<open>
  Claim C8. With a native width of 64 bits (\<^verbatim>\<open>sizeOfInt\<close> is 8) both narrowing
  operations succeed and return the value of their input. With a native width of 32 bits
  (\<^verbatim>\<open>sizeOfInt\<close> is 4) \<^verbatim>\<open>int64ToInt\<close> fails with an overflow error exactly when the
  input is above \<open>2^31 - 1\<close> or below \<open>-2^31\<close>, \<^verbatim>\<open>uint64ToUint\<close> exactly when it is
  above \<open>2^32 - 1\<close>, and otherwise each returns the value of its input unchanged; so
  \<open>2^31\<close> is rejected and 23 yields 23.
\<close>

theorem narrowing_bounds:
  "(sizeOfInt L = 8 \<longrightarrow> int64ToInt L i = Inr (sint i) \<and> uint64ToUint L u = Inr (unat u)) \<and>
   (sizeOfInt L = 4 \<longrightarrow>
      int64ToInt L i =
        (if 2147483647 < sint i then Inl (IntegerTooBig i)
         else if sint i < - 2147483648 then Inl (IntegerTooSmall i)
         else Inr (sint i)) \<and>
      uint64ToUint L u =
        (if 4294967295 < unat u then Inl (UnsignedTooBig u) else Inr (unat u)) \<and>
      int64ToInt L (2 ^ 31) = Inl (IntegerTooBig (2 ^ 31)) \<and>
      int64ToInt L 23 = Inr 23)"
proof (intro conjI impI)
  assume "sizeOfInt L = 8"
  then show "int64ToInt L i = Inr (sint i)" by (simp add: int64ToInt_def)
next
  assume "sizeOfInt L = 8"
  then show "uint64ToUint L u = Inr (unat u)" by (simp add: uint64ToUint_def)
next
  assume "sizeOfInt L = 4"
  then show "int64ToInt L i =
        (if 2147483647 < sint i then Inl (IntegerTooBig i)
         else if sint i < - 2147483648 then Inl (IntegerTooSmall i)
         else Inr (sint i))" by (simp add: int64ToInt_32)
next
  assume "sizeOfInt L = 4"
  then show "uint64ToUint L u =
        (if 4294967295 < unat u then Inl (UnsignedTooBig u) else Inr (unat u))"
    by (simp add: uint64ToUint_32)
next
  assume "sizeOfInt L = 4"
  then show "int64ToInt L (2 ^ 31) = Inl (IntegerTooBig (2 ^ 31))" by (simp add: int64ToInt_32)
next
  assume "sizeOfInt L = 4"
  then show "int64ToInt L 23 = Inr 23" by (simp add: int64ToInt_32)
qed

text \<open>
  Both widths on concrete inputs.
\<close>

theorem narrowing_bounds_witness:
  "sizeOfInt sample_lib = 8 \<and> int64ToInt sample_lib (2 ^ 31) = Inr 2147483648 \<and>
   uint64ToUint sample_lib (2 ^ 32) = Inr 4294967296 \<and>
   sizeOfInt (sample_lib\<lparr>sizeOfInt := 4\<rparr>) = 4 \<and>
   int64ToInt (sample_lib\<lparr>sizeOfInt := 4\<rparr>) (2 ^ 31) = Inl (IntegerTooBig (2 ^ 31)) \<and>
   int64ToInt (sample_lib\<lparr>sizeOfInt := 4\<rparr>) 23 = Inr 23 \<and>
   uint64ToUint (sample_lib\<lparr>sizeOfInt := 4\<rparr>) (2 ^ 32) = Inl (UnsignedTooBig (2 ^ 32))"
  using narrowing_bounds [of sample_lib "2 ^ 31" "2 ^ 32"]
        narrowing_bounds [of "sample_lib\<lparr>sizeOfInt := 4\<rparr>" 23 "2 ^ 32"]
  by (simp add: sample_lib_def)

text \<open>
  Claim C7. For a field that can be set, \<^verbatim>\<open>assignFromIntf\<close> given a negative 64-bit
  integer \<open>v\<close> of the file and a field of kind \<^verbatim>\<open>uint64\<close> succeeds and stores the bits
  of \<open>v\<close>, whose unsigned reading is \<open>v\<close> modulo \<open>2^64\<close>: no negative value is rejected.
  For a field of kind \<^verbatim>\<open>uint\<close> the only rejection is the error of \<^verbatim>\<open>uint64ToUint\<close> on
  the reinterpreted value; when that check passes the same bits are stored.
\<close>

theorem assignFromIntf_unsigned:
  assumes "CanSet fv" and "VType fv = fieldType"
  shows "(Type_Kind fieldType = reflect_Uint64 \<and> sint v < 0 \<longrightarrow>
            assignFromIntf L (DInt64 v) fieldType fv = Inr (VUint v) \<and>
            uint v = sint v mod 2 ^ 64) \<and>
         (Type_Kind fieldType = reflect_Uint \<longrightarrow>
            assignFromIntf L (DInt64 v) fieldType fv =
              (case uint64ToUint L v of Inl e \<Rightarrow> Inl (Error e) | Inr u \<Rightarrow> Inr (VUint v)))"
  using assms
  by (simp add: assignFromIntf_def reflect_SetUint_def uint64ToUint_def narrow_ucast uint_neg)

text \<open>
  The value \<open>-1\<close> of the file: stored as \<open>2^64 - 1\<close> in a \<^verbatim>\<open>uint64\<close> field, rejected by
  the bounds converter for a \<^verbatim>\<open>uint\<close> field of 32 bits.
\<close>

theorem assignFromIntf_unsigned_witness:
  "CanSet \<lparr>VType = Basic reflect_Uint64 (str ''uint64''), CanSet = True, Cur = VUint 7\<rparr> \<and>
   sint (- 1 :: 64 word) < 0 \<and>
   assignFromIntf sample_lib (DInt64 (- 1)) (Basic reflect_Uint64 (str ''uint64''))
     \<lparr>VType = Basic reflect_Uint64 (str ''uint64''), CanSet = True, Cur = VUint 7\<rparr>
     = Inr (VUint (- 1)) \<and>
   uint (- 1 :: 64 word) = 18446744073709551615 \<and>
   assignFromIntf (sample_lib\<lparr>sizeOfInt := 4\<rparr>) (DInt64 (- 1)) (Basic reflect_Uint (str ''uint''))
     \<lparr>VType = Basic reflect_Uint (str ''uint''), CanSet = True, Cur = VUint 7\<rparr>
     = Inl (Error (UnsignedTooBig (- 1)))"
  using assignFromIntf_unsigned [of "\<lparr>VType = Basic reflect_Uint64 (str ''uint64''), CanSet = True, Cur = VUint 7\<rparr>"
          "Basic reflect_Uint64 (str ''uint64'')" "- 1" sample_lib]
        assignFromIntf_unsigned [of "\<lparr>VType = Basic reflect_Uint (str ''uint''), CanSet = True, Cur = VUint 7\<rparr>"
          "Basic reflect_Uint (str ''uint'')" "- 1" "sample_lib\<lparr>sizeOfInt := 4\<rparr>"]
  by (simp add: uint64ToUint_def sample_lib_def unsigned_minus_1_eq_mask mask_eq_exp_minus_1)

text \<open>
  Claim C9, as amended. \<^verbatim>\<open>toCamel\<close> applied to its own output returns that output for
  every string whose characters all have a lowercase form that is not itself uppercase
  and that lowercasing leaves unchanged, as every ASCII string has; and a string without
  uppercase characters, whose characters lowercasing leaves unchanged, is returned
  unchanged. (The case tables are assumed to be those of Go on ASCII, where the underscore
  is not uppercase.)
\<close>

theorem toCamel_idempotent_when:
  "(ascii_case L \<and>
    (\<forall>x \<in> set s. \<not> unicode_IsUpper L (unicode_ToLower L x) \<and>
                  unicode_ToLower L (unicode_ToLower L x) = unicode_ToLower L x)
      \<longrightarrow> toCamel L (toCamel L s) = toCamel L s) \<and>
   (ascii_case L \<and> (\<forall>x \<in> set s. x < 128) \<longrightarrow> toCamel L (toCamel L s) = toCamel L s) \<and>
   ((\<forall>x \<in> set s. \<not> unicode_IsUpper L x \<and> unicode_ToLower L x = x) \<longrightarrow> toCamel L s = s)"
proof -
  have idem: "toCamel L (toCamel L s) = toCamel L s"
    if a: "ascii_case L"
      and lo: "\<forall>x \<in> set s. \<not> unicode_IsUpper L (unicode_ToLower L x) \<and>
                  unicode_ToLower L (unicode_ToLower L x) = unicode_ToLower L x"
  proof -
    from a have us: "\<not> unicode_IsUpper L 95" "unicode_ToLower L 95 = 95"
      by (simp_all add: ascii_case_def)
    have "\<forall>x \<in> set (toCamel_spec L s). \<not> unicode_IsUpper L x \<and> unicode_ToLower L x = x"
      using set_toCamel_spec [of L s] us lo by auto
    then show ?thesis by (simp add: toCamel_eq_spec toCamel_no_upper)
  qed
  have ascii: "toCamel L (toCamel L s) = toCamel L s"
    if a: "ascii_case L" and b: "\<forall>x \<in> set s. x < 128"
    using a b by (intro idem) (auto dest: ascii_lower_fixed)
  have same: "toCamel L s = s"
    if "\<forall>x \<in> set s. \<not> unicode_IsUpper L x \<and> unicode_ToLower L x = x"
    using that by (simp add: toCamel_eq_spec toCamel_no_upper)
  from idem ascii same show ?thesis by blast
qed

text \<open>
  The amended statement at \<^verbatim>\<open>OneTWOThree\<close> and at \<^verbatim>\<open>one_two_three\<close>.
\<close>

theorem toCamel_idempotent_when_witness:
  "ascii_case sample_lib \<and>
   list_all (\<lambda>x. \<not> unicode_IsUpper sample_lib (unicode_ToLower sample_lib x) \<and>
                  unicode_ToLower sample_lib (unicode_ToLower sample_lib x) = unicode_ToLower sample_lib x)
            (str ''OneTWOThree'') \<and>
   toCamel sample_lib (toCamel sample_lib (str ''OneTWOThree'')) = toCamel sample_lib (str ''OneTWOThree'') \<and>
   list_all (\<lambda>x. \<not> unicode_IsUpper sample_lib x \<and> unicode_ToLower sample_lib x = x)
            (str ''one_two_three'') \<and>
   toCamel sample_lib (str ''one_two_three'') = str ''one_two_three''"
proof -
  have h1: "\<forall>x \<in> set (str ''OneTWOThree''). \<not> unicode_IsUpper sample_lib (unicode_ToLower sample_lib x) \<and>
       unicode_ToLower sample_lib (unicode_ToLower sample_lib x) = unicode_ToLower sample_lib x"
    by (simp add: str_def sample_lib_def)
  have h2: "\<forall>x \<in> set (str ''one_two_three''). \<not> unicode_IsUpper sample_lib x \<and> unicode_ToLower sample_lib x = x"
    by (simp add: str_def sample_lib_def)
  from toCamel_idempotent_when [of sample_lib "str ''OneTWOThree''"]
       toCamel_idempotent_when [of sample_lib "str ''one_two_three''"]
       sample_ascii h1 h2
  show ?thesis unfolding list_all_iff by blast
qed

text \<open>
  Without the restriction the statement fails. U+2102 is an uppercase letter that
  \<^verbatim>\<open>unicode.ToLower\<close> returns unchanged; in the two-rune string made of \<open>a\<close> and U+2102
  (a legal Go identifier) the second rune gets an underscore, and it gets a second one when
  \<^verbatim>\<open>toCamel\<close> runs again on the result \<^verbatim>\<open>a_\<close>U+2102, because it is still uppercase and
  now follows the underscore.
\<close>

theorem toCamel_not_idempotent:
  "toCamel sample_lib (toCamel sample_lib [97, 8450]) \<noteq> toCamel sample_lib [97, 8450]"
  by (simp add: toCamel_def toCamel_loop.simps sample_lib_def)



text \<open>
  Claim C5. Let \<^verbatim>\<open>c\<close> be a pointer to a struct. If the decoder reports that the file does
  not exist (it returns an error that \<^verbatim>\<open>os.IsNotExist\<close> accepts and leaves \<^verbatim>\<open>i\<close> nil),
  \<^verbatim>\<open>Load\<close> does not return that error: its result is that of \<^verbatim>\<open>bind\<close> on the empty file
  mapping, so that every field is bound from the environment alone, and a field for which
  the environment provides nothing keeps the value it had. If the decoder returns any
  other error, \<^verbatim>\<open>Load\<close> returns that error and the struct is as it was.
\<close>

theorem Load_decode_errors:
  assumes c: "c = Arg (PtrTo (StructOf n fs)) p"
  shows "(decodeFile file = (None, Some e) \<and> os_IsNotExist e \<longrightarrow>
            Load L decodeFile getenv c file envPrefix env
              = bind L getenv envPrefix (StructOf n fs) p Map.empty \<and>
            snd (Load L decodeFile getenv c file envPrefix env) \<noteq> Some (Error e) \<and>
            (\<forall>vs j. p = Some vs \<and> j < length fs \<and> \<not> env_provides L getenv envPrefix (fs ! j) \<longrightarrow>
               (\<exists>vs'. fst (Load L decodeFile getenv c file envPrefix env) = Some vs' \<and>
                      vs' ! j = vs ! j))) \<and>
         (decodeFile file = (i, Some e) \<and> \<not> os_IsNotExist e \<longrightarrow>
            Load L decodeFile getenv c file envPrefix env = (p, Some (Error e)))"
proof (intro conjI impI allI)
  assume a: "decodeFile file = (None, Some e) \<and> os_IsNotExist e"
  then show eq: "Load L decodeFile getenv c file envPrefix env
              = bind L getenv envPrefix (StructOf n fs) p Map.empty"
    by (simp add: c Load_struct envLevel_def)
  show "snd (Load L decodeFile getenv c file envPrefix env) \<noteq> Some (Error e)"
  proof
    assume "snd (Load L decodeFile getenv c file envPrefix env) = Some (Error e)"
    with eq have "bind_loop L getenv envPrefix (StructOf n fs) p Map.empty 0
        = (fst (bind L getenv envPrefix (StructOf n fs) p Map.empty), Some (Error e))"
      by (simp add: bind_def prod_eq_iff)
    from bind_loop_Error [OF this] a show False by auto
  qed
  fix vs j
  assume b: "p = Some vs \<and> j < length fs \<and> \<not> env_provides L getenv envPrefix (fs ! j)"
  obtain val' r where run: "bind_loop L getenv envPrefix (StructOf n fs) (Some vs) Map.empty 0 = (val', r)"
    by (cases "bind_loop L getenv envPrefix (StructOf n fs) (Some vs) Map.empty 0") auto
  have "getKeyName L (Type_Field (StructOf n fs) j) = [] \<or>
     (getenv (envLookupName L envPrefix (getKeyName L (Type_Field (StructOf n fs) j))) = [] \<and>
      Map.empty (getKeyName L (Type_Field (StructOf n fs) j)) = None)"
    using b by (auto simp: env_provides_def Type_Field_def)
  from bind_loop_untouched [OF run this] eq b run
  show "\<exists>vs'. fst (Load L decodeFile getenv c file envPrefix env) = Some vs' \<and> vs' ! j = vs ! j"
    by (auto simp: bind_def)
next
  assume "decodeFile file = (i, Some e) \<and> \<not> os_IsNotExist e"
  then show "Load L decodeFile getenv c file envPrefix env = (p, Some (Error e))"
    by (simp add: c Load_struct)
qed

text \<open>
  The worked example with a missing file and with a file that does not parse.
\<close>

theorem Load_decode_errors_witness:
  "sample_decodeFile (str ''missing.toml'') = (None, Some (ErrNotExist (str ''missing.toml''))) \<and>
   os_IsNotExist (ErrNotExist (str ''missing.toml'')) \<and>
   Load sample_lib sample_decodeFile sample_getenv (Arg (PtrTo sample_type) (Some sample_vals))
        (str ''missing.toml'') [] (str ''dev'')
     = (Some [VString (str ''old''), VString (str '':4000''), VUint 7, VString (str ''hunter2'')], None) \<and>
   sample_decodeFile (str ''broken.toml'') = (None, Some (LibraryError (str ''toml: syntax error''))) \<and>
   \<not> os_IsNotExist (LibraryError (str ''toml: syntax error'')) \<and>
   Load sample_lib sample_decodeFile sample_getenv (Arg (PtrTo sample_type) (Some sample_vals))
        (str ''broken.toml'') [] (str ''dev'')
     = (Some sample_vals, Some (Error (LibraryError (str ''toml: syntax error''))))"
proof -
  have c: "Arg (PtrTo sample_type) (Some sample_vals) =
           Arg (PtrTo (StructOf (str ''main.Config'') (Type_Fields sample_type))) (Some sample_vals)"
    by (simp add: sample_type_def)
  have t: "StructOf (str ''main.Config'') (Type_Fields sample_type) = sample_type"
    by (simp add: sample_type_def)
  from Load_decode_errors [OF c, of sample_decodeFile "str ''missing.toml''"
         "ErrNotExist (str ''missing.toml'')" sample_lib sample_getenv "[]" "str ''dev''" None]
       Load_decode_errors [OF c, of sample_decodeFile "str ''broken.toml''"
         "LibraryError (str ''toml: syntax error'')" sample_lib sample_getenv "[]" "str ''dev''" None]
       sample_decode sample_bind_nofile
  show ?thesis by (simp add: t)
qed

text \<open>
  Claim C10. Let \<^verbatim>\<open>c\<close> be a pointer to a struct and take one of its fields. If the tag of
  the field is the omit sentinel \<^verbatim>\<open>-\<close> (or its key is empty otherwise), or if the
  environment variable of its lookup name is empty and the file mapping handed to
  \<^verbatim>\<open>bind\<close> has no entry for its key, then after \<^verbatim>\<open>Load\<close>, however it ends, the field
  holds the value it held before the call. For an omitted field this holds whatever the
  environment and the file contain.
\<close>

theorem Load_untouched_field:
  assumes c: "c = Arg (PtrTo (StructOf n fs)) (Some vs)"
    and j: "j < length fs"
    and u: "Tag_Get (Tag (fs ! j)) (str ''shift'') = str ''-'' \<or>
            getKeyName L (fs ! j) = [] \<or>
            (getenv (envLookupName L envPrefix (getKeyName L (fs ! j))) = [] \<and>
             (\<forall>m. envLevel (fst (decodeFile file)) env = Inr m \<longrightarrow> m (getKeyName L (fs ! j)) = None))"
  shows "\<exists>vs'. fst (Load L decodeFile getenv c file envPrefix env) = Some vs' \<and>
               length vs' = length vs \<and> vs' ! j = vs ! j"
proof -
  have tag: "Tag_Get (Tag (fs ! j)) (str ''shift'') = str ''-'' \<Longrightarrow> getKeyName L (fs ! j) = []"
    by (simp add: getKeyName_def)
  obtain i err where d: "decodeFile file = (i, err)" by (cases "decodeFile file") auto
  show ?thesis
  proof (cases "case err of None \<Rightarrow> None | Some e \<Rightarrow> if os_IsNotExist e then None else Some e")
    case (Some e)
    then show ?thesis by (simp add: c Load_struct d)
  next
    case None
    show ?thesis
    proof (cases "envLevel i env")
      case (Inl f)
      with None show ?thesis by (simp add: c Load_struct d)
    next
      case (Inr m)
      obtain val' r where run: "bind_loop L getenv envPrefix (StructOf n fs) (Some vs) m 0 = (val', r)"
        by (cases "bind_loop L getenv envPrefix (StructOf n fs) (Some vs) m 0") auto
      have "getKeyName L (Type_Field (StructOf n fs) j) = [] \<or>
         (getenv (envLookupName L envPrefix (getKeyName L (Type_Field (StructOf n fs) j))) = [] \<and>
          m (getKeyName L (Type_Field (StructOf n fs) j)) = None)"
        using u tag Inr d by (auto simp: Type_Field_def)
      from bind_loop_untouched [OF run this] None Inr run show ?thesis
        by (auto simp: c Load_struct d bind_def)
    qed
  qed
qed

text \<open>
  The worked example: the field \<^verbatim>\<open>Secret\<close> is tagged \<^verbatim>\<open>-\<close> and keeps its value although
  the file has an entry \<^verbatim>\<open>secret\<close>.
\<close>

theorem Load_untouched_field_witness:
  "Tag_Get (Tag (Type_Fields sample_type ! 3)) (str ''shift'') = str ''-'' \<and>
   map_of sample_section (str ''secret'') = Some (DString (str ''leak'')) \<and>
   (\<exists>vs'. fst (Load sample_lib sample_decodeFile sample_getenv (Arg (PtrTo sample_type) (Some sample_vals))
                  (str ''config.toml'') [] (str ''dev'')) = Some vs' \<and>
          vs' ! 3 = VString (str ''hunter2''))"
proof -
  have c: "Arg (PtrTo sample_type) (Some sample_vals) =
           Arg (PtrTo (StructOf (str ''main.Config'') (Type_Fields sample_type))) (Some sample_vals)"
    by (simp add: sample_type_def)
  have j: "3 < length (Type_Fields sample_type)" by (simp add: sample_type_def)
  have u: "Tag_Get (Tag (Type_Fields sample_type ! 3)) (str ''shift'') = str ''-''"
    by (simp add: sample_type_def Tag_Get_def)
  have s: "map_of sample_section (str ''secret'') = Some (DString (str ''leak''))"
    by (simp add: sample_section_def str_def)
  have v: "sample_vals ! 3 = VString (str ''hunter2'')" by (simp add: sample_vals_def)
  from Load_untouched_field [OF c j disjI1 [OF u], of sample_lib sample_decodeFile sample_getenv
         "str ''config.toml''" "[]" "str ''dev''"] u s v
  show ?thesis by auto
qed

text \<open>
  Claim C4 says that \<^verbatim>\<open>Load\<close> returns a schema error, and never panics, for every
  argument that is not a pointer to a struct, a nil argument included. For a value that
  is not a pointer and for a pointer to something else than a struct the code does so
  (\<open>Load_not_pointer\<close>, \<open>Load_pointer_to_non_struct\<close>). For the nil interface
  \<^verbatim>\<open>reflect.TypeOf(c)\<close> is nil and \<^verbatim>\<open>typ.Kind()\<close> panics: the code at that input.
\<close>

theorem Load_nil_panics:
  "Load L decodeFile getenv NilInterface file envPrefix env =
     (None, Some (Panic ''invalid memory address or nil pointer dereference''))"
  by (simp add: Load_def)

text \<open>
  Claim C3 says that \<^verbatim>\<open>Load\<close> goes on with an empty file mapping, and returns without
  error, when the file decodes but has no section named \<^verbatim>\<open>env\<close>. The code at a file
  whose only section is \<^verbatim>\<open>prod\<close>, loaded for \<^verbatim>\<open>dev\<close>: \<^verbatim>\<open>topLevel[env]\<close> is the nil
  interface and the type assertion on it panics, before \<^verbatim>\<open>bind\<close> is called.
\<close>

theorem Load_missing_section_panics:
  "Load L (\<lambda>path. (Some (DMap [(str ''prod'', DMap [])]), None)) getenv
        (Arg (PtrTo (StructOf n fs)) p) file envPrefix (str ''dev'')
   = (p, Some (Panic ''interface conversion: interface {} is nil, not map[string]interface {}''))"
  by (simp add: Load_def envLevel_def str_def)

text \<open>
  Claim C6 says that \<^verbatim>\<open>assignFromIntf\<close> returns a conversion error, and never panics,
  whenever the kind of the file value does not match the type of the field, a value that
  is not a timestamp for a \<^verbatim>\<open>time.Time\<close> field included. The other cases of the
  \<^verbatim>\<open>switch\<close> assert the dynamic type first and fall through to the error (as in
  \<open>assignFromIntf_text_for_int\<close>). The code at a string for a settable \<^verbatim>\<open>time.Time\<close>
  field: \<^verbatim>\<open>Set\<close> is called with a value of type \<^verbatim>\<open>string\<close> and panics.
\<close>

theorem assignFromIntf_time_mismatch_panics:
  "assignFromIntf L (DString s) typeTime \<lparr>VType = typeTime, CanSet = True, Cur = c\<rparr>
     = Inl (Panic ''reflect.Set: value is not assignable to type'')"
  by (simp add: assignFromIntf_def typeTime_def reflect_Set_def)

end
